theory Spec2Isabelle
  imports Main "HOL-Library.Word"
begin

section \<open>Data model of package pomodoro (interval.go)\<close>

text \<open>
  \<open>time.Duration\<close> is an \<open>int64\<close> count of nanoseconds: a 64-bit word whose
  arithmetic wraps and whose comparisons are signed. \<open>time.Time\<close> is never
  inspected by the code modelled here and is kept as an opaque integer.
\<close>

type_synonym Duration = "64 word"
type_synonym Time = int

definition Second :: Duration where
  "Second = 1000000000"

definition Minute :: Duration where
  "Minute = 60 * Second"

text \<open>The category constants are Go strings; \<open>Category\<close> is a plain string field.\<close>

definition CategoryPomodoro :: string where
  "CategoryPomodoro = ''Pomodoro''"

definition CategoryShortBreak :: string where
  "CategoryShortBreak = ''ShortBreak''"

definition CategoryLongBreak :: string where
  "CategoryLongBreak = ''LongBreak''"

text \<open>
  The state constants are consecutive \<open>iota\<close> values of Go's \<open>int\<close>. The code only
  compares and assigns them, so no arithmetic on states is modelled.
\<close>

definition StateNotStarted :: int where
  "StateNotStarted = 0"

definition StateDone :: int where
  "StateDone = 1"

definition StateRunning :: int where
  "StateRunning = 2"

definition StatePaused :: int where
  "StatePaused = 3"

definition StateCancelled :: int where
  "StateCancelled = 4"

record Interval =
  ID :: "64 word"
  StartTime :: Time
  PlannedDuration :: Duration
  ActualDuration :: Duration
  Category :: string
  State :: int

text \<open>
  Go's \<open>error\<close> values: the five package-level sentinels, compared by identity with
  \<open>==\<close>, and \<open>ErrOther\<close> for any error value a Repository implementation may
  return that is none of them. A nil error is \<open>None\<close>.
\<close>

datatype error =
    ErrNoIntervals
  | ErrIntervalNotRunning
  | ErrIntervalCompleted
  | ErrInvalidState
  | ErrInvalidID
  | ErrOther string

text \<open>
  The \<open>Repository\<close> interface. Its implementations are not part of the package, so
  a repository is a parameter: one function per method over a state \<open>'s\<close> of the
  implementation's choosing. Every method returns Go's result tuple together with the
  state after the call, so an implementation may change its state on reads as well
  (a mock that fails on its n-th call, a store that another actor writes to).
\<close>

record 's Repository =
  Create :: "Interval \<Rightarrow> 's \<Rightarrow> (64 word \<times> error option) \<times> 's"
  Update :: "Interval \<Rightarrow> 's \<Rightarrow> error option \<times> 's"
  ByID :: "64 word \<Rightarrow> 's \<Rightarrow> (Interval \<times> error option) \<times> 's"
  Last :: "'s \<Rightarrow> (Interval \<times> error option) \<times> 's"
  Breaks :: "int \<Rightarrow> 's \<Rightarrow> (Interval list \<times> error option) \<times> 's"

record 's IntervalConfig =
  repo :: "'s Repository"
  PomodoroDuration :: Duration
  ShortBreakDuration :: Duration
  LongBreakDuration :: Duration

section \<open>NewConfig\<close>

definition NewConfig ::
  "'s Repository \<Rightarrow> Duration \<Rightarrow> Duration \<Rightarrow> Duration \<Rightarrow> 's IntervalConfig" where
  "NewConfig r pomodoro shortBreak longBreak =
     (let config = \<lparr>repo = r,
                    PomodoroDuration = 25 * Minute,
                    ShortBreakDuration = 5 * Minute,
                    LongBreakDuration = 15 * Minute\<rparr>;
          config = (if 0 <s pomodoro
                    then config\<lparr>PomodoroDuration := pomodoro\<rparr> else config);
          config = (if 0 <s shortBreak
                    then config\<lparr>ShortBreakDuration := shortBreak\<rparr> else config);
          config = (if 0 <s longBreak
                    then config\<lparr>LongBreakDuration := longBreak\<rparr> else config)
      in config)"

section \<open>nextCategory\<close>

text \<open>
  The \<open>range\<close> loop of \<open>nextCategory\<close> over the breaks it fetched: it returns
  from the function at the first element whose category is \<open>LongBreak\<close>.
\<close>

fun anyLongBreak :: "Interval list \<Rightarrow> bool" where
  "anyLongBreak [] = False"
| "anyLongBreak (i # rest) =
     (if Category i = CategoryLongBreak then True else anyLongBreak rest)"

definition nextCategory :: "'s Repository \<Rightarrow> 's \<Rightarrow> (string \<times> error option) \<times> 's" where
  "nextCategory r s =
     (case Last r s of ((lastInterval, err), s1) \<Rightarrow>
        if err \<noteq> None \<and> err = Some ErrNoIntervals then ((CategoryPomodoro, None), s1)
        else if err \<noteq> None then (('''', err), s1)
        else if Category lastInterval = CategoryLongBreak
                \<or> Category lastInterval = CategoryShortBreak
        then ((CategoryPomodoro, None), s1)
        else
          (case Breaks r 3 s1 of ((lastBreaks, err), s2) \<Rightarrow>
             if err \<noteq> None then (('''', err), s2)
             else if length lastBreaks < 3 then ((CategoryShortBreak, err), s2)
             else if anyLongBreak lastBreaks then ((CategoryShortBreak, None), s2)
             else ((CategoryLongBreak, None), s2)))"

section \<open>tick\<close>

text \<open>
  \<open>tick\<close> blocks in a \<open>select\<close> over three channels: the ticker, the one-shot
  expiry timer and \<open>ctx.Done()\<close>. Which of them is serviced at each pass of the loop
  is decided by the Go runtime and the clock, not by the function, so the order of
  serviced channels is an input of the model: a list of events, one per pass.
  When the list is used up no channel is ready and the loop is still waiting.
\<close>

datatype event = TickerFired | ExpireFired | CtxDone

text \<open>
  What a run does to the outside, in order: the Repository calls with their results,
  the arming of the expiry timer, and the three callbacks with the snapshot passed.
\<close>

datatype call =
    CallByID "64 word" Interval "error option"
  | CallUpdate Interval "error option"
  | TimeAfter Duration
  | CallStart Interval
  | CallPeriodic Interval
  | CallEnd Interval

datatype outcome = Returned "error option" | Waiting

text \<open>
  The \<open>for { select { ... } }\<close> loop. Each case declares its own \<open>interval\<close> with
  \<open>:=\<close>, so nothing but the repository state is carried from one pass to the next.
  The \<open>ctx.Done()\<close> case assigns \<open>StateCancelled\<close> to that local copy and reaches the
  end of the case: there is no \<open>Update\<close> and no \<open>return\<close>, the loop goes on.
\<close>

fun tick_loop ::
  "'s Repository \<Rightarrow> 64 word \<Rightarrow> event list \<Rightarrow> 's \<Rightarrow> outcome \<times> 's \<times> call list" where
  "tick_loop r ident [] s = (Waiting, s, [])"
| "tick_loop r ident (TickerFired # evs) s =
     (case ByID r ident s of ((interval, err), s1) \<Rightarrow>
        if err \<noteq> None then (Returned err, s1, [CallByID ident interval err])
        else if State interval = StatePaused
        then (Returned None, s1, [CallByID ident interval err])
        else
          (let interval' = interval\<lparr>ActualDuration := ActualDuration interval + Second\<rparr>
           in case Update r interval' s1 of (err', s2) \<Rightarrow>
                if err' \<noteq> None
                then (Returned err', s2, [CallByID ident interval err, CallUpdate interval' err'])
                else
                  (case tick_loop r ident evs s2 of (out, s3, cs) \<Rightarrow>
                     (out, s3,
                      [CallByID ident interval err, CallUpdate interval' err',
                       CallPeriodic interval'] @ cs))))"
| "tick_loop r ident (ExpireFired # evs) s =
     (case ByID r ident s of ((interval, err), s1) \<Rightarrow>
        if err \<noteq> None then (Returned err, s1, [CallByID ident interval err])
        else
          (let interval' = interval\<lparr>State := StateDone\<rparr>
           in case Update r interval' s1 of (err', s2) \<Rightarrow>
                (Returned err', s2,
                 [CallByID ident interval err, CallEnd interval', CallUpdate interval' err'])))"
| "tick_loop r ident (CtxDone # evs) s =
     (case ByID r ident s of ((interval, err), s1) \<Rightarrow>
        if err \<noteq> None then (Returned err, s1, [CallByID ident interval err])
        else
          (let interval' = interval\<lparr>State := StateCancelled\<rparr>
           in case tick_loop r ident evs s1 of (out, s2, cs) \<Rightarrow>
                (out, s2, CallByID ident interval err # cs)))"

text \<open>
  \<open>tick\<close> itself: the initial fetch, the expiry timer armed with what remains of the
  planned duration, the start callback, then the loop. The first argument stands for
  what \<open>ctx\<close>, the ticker and the timer deliver; the callbacks are recorded as calls.
  The ticker is created on entry and stopped by a deferred call on every return; it has
  no effect on the repository or the callbacks and is left out. The parameter \<open>id\<close>
  is written \<open>ident\<close>, since \<open>id\<close> is the identity function of HOL.
\<close>

definition tick ::
  "event list \<Rightarrow> 64 word \<Rightarrow> 's IntervalConfig \<Rightarrow> 's \<Rightarrow> outcome \<times> 's \<times> call list" where
  "tick sched ident config s =
     (case ByID (repo config) ident s of ((interval, err), s1) \<Rightarrow>
        if err \<noteq> None then (Returned err, s1, [CallByID ident interval err])
        else
          (let expire = PlannedDuration interval - ActualDuration interval
           in case tick_loop (repo config) ident sched s1 of (out, s2, cs) \<Rightarrow>
                (out, s2,
                 [CallByID ident interval err, TimeAfter expire, CallStart interval] @ cs)))"

text \<open>The error a Repository call returned; nil for every other entry of a run.\<close>

fun call_error :: "call \<Rightarrow> error option" where
  "call_error (CallByID ident i err) = err"
| "call_error (CallUpdate i err) = err"
| "call_error (TimeAfter d) = None"
| "call_error (CallStart i) = None"
| "call_error (CallPeriodic i) = None"
| "call_error (CallEnd i) = None"

section \<open>An in-memory Repository\<close>

text \<open>
  Modelled from the spec: no implementation of the \<open>Repository\<close> interface is part of
  the package, so concrete runs use this in-memory one, written from the interface
  description: the store is the list of intervals in creation order; \<open>ByID\<close> fails with
  \<open>ErrInvalidID\<close> if the id is absent; \<open>Last\<close> fails with \<open>ErrNoIntervals\<close> if the
  store is empty; \<open>Breaks n\<close> returns up to \<open>n\<close> most recent break intervals, most
  recent first. \<open>Update\<close> replaces the record with the same id, and is taken to fail
  with \<open>ErrInvalidID\<close> if there is none. A failed call returns the zero
  \<open>Interval\<close>.
\<close>

definition zeroInterval :: Interval where
  "zeroInterval =
     \<lparr>ID = 0, StartTime = 0, PlannedDuration = 0, ActualDuration = 0,
      Category = [], State = 0\<rparr>"

definition isBreak :: "Interval \<Rightarrow> bool" where
  "isBreak i = (Category i = CategoryShortBreak \<or> Category i = CategoryLongBreak)"

definition stored :: "64 word \<Rightarrow> Interval list \<Rightarrow> Interval option" where
  "stored n s = find (\<lambda>j. ID j = n) s"

fun memPut :: "Interval \<Rightarrow> Interval list \<Rightarrow> Interval list" where
  "memPut i [] = []"
| "memPut i (j # s) = (if ID j = ID i then i # s else j # memPut i s)"

definition memRepo :: "Interval list Repository" where
  "memRepo =
     \<lparr>Create = (\<lambda>i s. let n = word_of_nat (length s) + 1
                       in ((n, None), s @ [i\<lparr>ID := n\<rparr>])),
      Update = (\<lambda>i s. case stored (ID i) s of
                         None \<Rightarrow> (Some ErrInvalidID, s)
                       | Some _ \<Rightarrow> (None, memPut i s)),
      ByID = (\<lambda>n s. case stored n s of
                       None \<Rightarrow> ((zeroInterval, Some ErrInvalidID), s)
                     | Some i \<Rightarrow> ((i, None), s)),
      Last = (\<lambda>s. case rev s of
                     [] \<Rightarrow> ((zeroInterval, Some ErrNoIntervals), s)
                   | i # _ \<Rightarrow> ((i, None), s)),
      Breaks = (\<lambda>n s. ((take (nat n) (filter isBreak (rev s)), None), s))\<rparr>"

text \<open>
  Modelled from the spec: a storage failure injected on a chosen call. The state pairs
  the in-memory store with the number of calls that still succeed; once that budget is
  used up every call fails with the given error and leaves the store alone.
\<close>

definition flakyRepo :: "error \<Rightarrow> (nat \<times> Interval list) Repository" where
  "flakyRepo e =
     \<lparr>Create = (\<lambda>i (k, s). case k of
                    0 \<Rightarrow> ((0, Some e), (0, s))
                  | Suc k' \<Rightarrow> (case Create memRepo i s of (res, s') \<Rightarrow> (res, (k', s')))),
      Update = (\<lambda>i (k, s). case k of
                    0 \<Rightarrow> (Some e, (0, s))
                  | Suc k' \<Rightarrow> (case Update memRepo i s of (res, s') \<Rightarrow> (res, (k', s')))),
      ByID = (\<lambda>n (k, s). case k of
                    0 \<Rightarrow> ((zeroInterval, Some e), (0, s))
                  | Suc k' \<Rightarrow> (case ByID memRepo n s of (res, s') \<Rightarrow> (res, (k', s')))),
      Last = (\<lambda>(k, s). case k of
                    0 \<Rightarrow> ((zeroInterval, Some e), (0, s))
                  | Suc k' \<Rightarrow> (case Last memRepo s of (res, s') \<Rightarrow> (res, (k', s')))),
      Breaks = (\<lambda>n (k, s). case k of
                    0 \<Rightarrow> (([], Some e), (0, s))
                  | Suc k' \<Rightarrow> (case Breaks memRepo n s of (res, s') \<Rightarrow> (res, (k', s'))))\<rparr>"

text \<open>An interval with the given id, durations in seconds, category and state.\<close>

definition mkInterval :: "64 word \<Rightarrow> 64 word \<Rightarrow> 64 word \<Rightarrow> string \<Rightarrow> int \<Rightarrow> Interval" where
  "mkInterval n planned actual c st =
     \<lparr>ID = n, StartTime = 0, PlannedDuration = planned * Second,
      ActualDuration = actual * Second, Category = c, State = st\<rparr>"

text \<open>The data-model invariant \<open>actualDuration \<le> plannedDuration\<close>, on signed 64-bit values.\<close>

definition withinPlan :: "Interval \<Rightarrow> bool" where
  "withinPlan i = (ActualDuration i \<le>s PlannedDuration i)"

section \<open>Reading a run\<close>

text \<open>The snapshots handed to the periodic and to the end callback, and to \<open>Update\<close>.\<close>

fun periodic_calls :: "call list \<Rightarrow> Interval list" where
  "periodic_calls [] = []"
| "periodic_calls (CallPeriodic i # cs) = i # periodic_calls cs"
| "periodic_calls (c # cs) = periodic_calls cs"

fun end_calls :: "call list \<Rightarrow> Interval list" where
  "end_calls [] = []"
| "end_calls (CallEnd i # cs) = i # end_calls cs"
| "end_calls (c # cs) = end_calls cs"

fun update_calls :: "call list \<Rightarrow> Interval list" where
  "update_calls [] = []"
| "update_calls (CallUpdate i err # cs) = i # update_calls cs"
| "update_calls (c # cs) = update_calls cs"

text \<open>
  The calls of \<open>n\<close> periodic ticks serviced one after the other on interval \<open>i\<close>,
  when every Repository call succeeds and nothing else writes to the stored interval.
\<close>

fun tick_calls :: "64 word \<Rightarrow> Interval \<Rightarrow> nat \<Rightarrow> call list" where
  "tick_calls ident i 0 = []"
| "tick_calls ident i (Suc n) =
     (let i' = i\<lparr>ActualDuration := ActualDuration i + Second\<rparr>
      in [CallByID ident i None, CallUpdate i' None, CallPeriodic i'] @ tick_calls ident i' n)"

text \<open>
  A history for the in-memory store: one finished interval per category given, oldest
  first, with ids counted from 1.
\<close>

definition history :: "string list \<Rightarrow> Interval list" where
  "history cats =
     map (\<lambda>(k, c). mkInterval (word_of_nat (Suc k)) 1 1 c StateDone) (enumerate 0 cats)"

section \<open>Properties of NewConfig\<close>

text \<open>
  C10: \<open>NewConfig\<close> treats a non-positive duration argument as unset. Whenever
  \<open>pomodoro\<close>, \<open>shortBreak\<close> or \<open>longBreak\<close> is zero or negative (as a signed
  64-bit value) the field of the returned configuration is the default of 25, 5 or 15
  minutes, and a strictly positive argument replaces the default exactly. The
  repository reference is stored as given.
\<close>

theorem NewConfig_nonpositive_is_default:
  "(sint pomodoro \<le> 0 \<longrightarrow>
      PomodoroDuration (NewConfig r pomodoro shortBreak longBreak) = 25 * Minute) \<and>
   (0 < sint pomodoro \<longrightarrow>
      PomodoroDuration (NewConfig r pomodoro shortBreak longBreak) = pomodoro) \<and>
   (sint shortBreak \<le> 0 \<longrightarrow>
      ShortBreakDuration (NewConfig r pomodoro shortBreak longBreak) = 5 * Minute) \<and>
   (0 < sint shortBreak \<longrightarrow>
      ShortBreakDuration (NewConfig r pomodoro shortBreak longBreak) = shortBreak) \<and>
   (sint longBreak \<le> 0 \<longrightarrow>
      LongBreakDuration (NewConfig r pomodoro shortBreak longBreak) = 15 * Minute) \<and>
   (0 < sint longBreak \<longrightarrow>
      LongBreakDuration (NewConfig r pomodoro shortBreak longBreak) = longBreak) \<and>
   repo (NewConfig r pomodoro shortBreak longBreak) = r"
  by (simp add: NewConfig_def Let_def word_sless_alt)

text \<open>
  The theorem at zero, at \<open>-1\<close> and at the least \<open>int64\<close>, and at three positive
  durations.
\<close>

theorem NewConfig_nonpositive_is_default_witness:
  "sint (0 :: Duration) \<le> 0 \<and> sint (- 1 :: Duration) \<le> 0
   \<and> sint (- 9223372036854775808 :: Duration) \<le> 0
   \<and> PomodoroDuration (NewConfig memRepo 0 (- 1) (- 9223372036854775808)) = 25 * Minute
   \<and> ShortBreakDuration (NewConfig memRepo 0 (- 1) (- 9223372036854775808)) = 5 * Minute
   \<and> LongBreakDuration (NewConfig memRepo 0 (- 1) (- 9223372036854775808)) = 15 * Minute
   \<and> 0 < sint (1 :: Duration) \<and> 0 < sint (2 * Second) \<and> 0 < sint (90 * Minute)
   \<and> PomodoroDuration (NewConfig memRepo 1 (2 * Second) (90 * Minute)) = 1
   \<and> ShortBreakDuration (NewConfig memRepo 1 (2 * Second) (90 * Minute)) = 2 * Second
   \<and> LongBreakDuration (NewConfig memRepo 1 (2 * Second) (90 * Minute)) = 90 * Minute"
  using NewConfig_nonpositive_is_default
          [where r = memRepo and pomodoro = 0 and shortBreak = "- 1"
             and longBreak = "- 9223372036854775808"]
        NewConfig_nonpositive_is_default
          [where r = memRepo and pomodoro = 1 and shortBreak = "2 * Second"
             and longBreak = "90 * Minute"]
  by (simp add: Second_def Minute_def)

section \<open>Properties of nextCategory\<close>

lemma anyLongBreak_iff:
  "anyLongBreak bs \<longleftrightarrow> (\<exists>i\<in>set bs. Category i = CategoryLongBreak)"
  by (induction bs) auto

text \<open>
  C7: if \<open>Last\<close> fails with \<open>ErrNoIntervals\<close>, \<open>nextCategory\<close> suppresses the
  error and returns \<open>(Pomodoro, nil)\<close>; for any other non-nil error of \<open>Last\<close> it
  returns that error unchanged with the empty string as category.
\<close>

theorem nextCategory_Last_error:
  assumes "Last r s = ((lastInterval, Some e), s1)"
  shows "(e = ErrNoIntervals \<longrightarrow> nextCategory r s = ((CategoryPomodoro, None), s1)) \<and>
         (e \<noteq> ErrNoIntervals \<longrightarrow> nextCategory r s = (([], Some e), s1))"
  using assms by (simp add: nextCategory_def)

text \<open>
  The theorem on the empty in-memory store, where \<open>Last\<close> fails with
  \<open>ErrNoIntervals\<close>, and on a repository whose \<open>Last\<close> fails with another error.
\<close>

theorem nextCategory_Last_error_witness:
  "Last memRepo [] = ((zeroInterval, Some ErrNoIntervals), [])
   \<and> nextCategory memRepo [] = ((CategoryPomodoro, None), [])
   \<and> Last (flakyRepo (ErrOther ''disk full'')) (0, [])
       = ((zeroInterval, Some (ErrOther ''disk full'')), (0, []))
   \<and> ErrOther ''disk full'' \<noteq> ErrNoIntervals
   \<and> nextCategory (flakyRepo (ErrOther ''disk full'')) (0, [])
       = (([], Some (ErrOther ''disk full'')), (0, []))"
proof -
  have none: "Last memRepo [] = ((zeroInterval, Some ErrNoIntervals), [])"
    by (simp add: memRepo_def)
  have other: "Last (flakyRepo (ErrOther ''disk full'')) (0, [])
                 = ((zeroInterval, Some (ErrOther ''disk full'')), (0, []))"
    by (simp add: flakyRepo_def)
  show ?thesis
    using none other nextCategory_Last_error [OF none] nextCategory_Last_error [OF other]
    by simp
qed

text \<open>
  C9: when the interval returned by \<open>Last\<close> is a \<open>ShortBreak\<close> or a \<open>LongBreak\<close>,
  \<open>nextCategory\<close> returns \<open>(Pomodoro, nil)\<close> and the repository is left in the
  state \<open>Last\<close> produced. \<open>Breaks\<close> is not called: the result is the same whatever
  the \<open>Breaks\<close> method of the repository is replaced with.
\<close>

theorem nextCategory_after_break:
  assumes "Last r s = ((lastInterval, None), s1)"
    and "Category lastInterval = CategoryShortBreak \<or> Category lastInterval = CategoryLongBreak"
  shows "nextCategory r s = ((CategoryPomodoro, None), s1) \<and>
         nextCategory (r\<lparr>Breaks := b\<rparr>) s = ((CategoryPomodoro, None), s1)"
  using assms by (auto simp add: nextCategory_def)

text \<open>
  The theorem on two in-memory histories ending in a short and in a long break, the
  first also with a \<open>Breaks\<close> method that would fail if it were called.
\<close>

theorem nextCategory_after_break_witness:
  "Last memRepo (history [CategoryPomodoro, CategoryShortBreak])
     = ((mkInterval 2 1 1 CategoryShortBreak StateDone, None),
        history [CategoryPomodoro, CategoryShortBreak])
   \<and> nextCategory memRepo (history [CategoryPomodoro, CategoryShortBreak])
     = ((CategoryPomodoro, None), history [CategoryPomodoro, CategoryShortBreak])
   \<and> nextCategory (memRepo\<lparr>Breaks := \<lambda>n s. (([], Some ErrInvalidState), s)\<rparr>)
        (history [CategoryPomodoro, CategoryShortBreak])
     = ((CategoryPomodoro, None), history [CategoryPomodoro, CategoryShortBreak])
   \<and> Last memRepo (history [CategoryPomodoro, CategoryLongBreak])
     = ((mkInterval 2 1 1 CategoryLongBreak StateDone, None),
        history [CategoryPomodoro, CategoryLongBreak])
   \<and> nextCategory memRepo (history [CategoryPomodoro, CategoryLongBreak])
     = ((CategoryPomodoro, None), history [CategoryPomodoro, CategoryLongBreak])"
proof -
  have short: "Last memRepo (history [CategoryPomodoro, CategoryShortBreak])
     = ((mkInterval 2 1 1 CategoryShortBreak StateDone, None),
        history [CategoryPomodoro, CategoryShortBreak])"
    by (simp add: memRepo_def history_def)
  have long: "Last memRepo (history [CategoryPomodoro, CategoryLongBreak])
     = ((mkInterval 2 1 1 CategoryLongBreak StateDone, None),
        history [CategoryPomodoro, CategoryLongBreak])"
    by (simp add: memRepo_def history_def)
  have c1: "Category (mkInterval 2 1 1 CategoryShortBreak StateDone) = CategoryShortBreak
            \<or> Category (mkInterval 2 1 1 CategoryShortBreak StateDone) = CategoryLongBreak"
    by (simp add: mkInterval_def)
  have c2: "Category (mkInterval 2 1 1 CategoryLongBreak StateDone) = CategoryShortBreak
            \<or> Category (mkInterval 2 1 1 CategoryLongBreak StateDone) = CategoryLongBreak"
    by (simp add: mkInterval_def)
  show ?thesis
    using short long nextCategory_after_break [OF short c1]
      nextCategory_after_break [OF long c2]
    by simp
qed

text \<open>
  C8: when the most recent interval is a \<open>Pomodoro\<close>, \<open>nextCategory\<close> calls
  \<open>Breaks(3)\<close>. With \<open>lastBreaks\<close> the breaks that call returned (without error), it
  returns \<open>LongBreak\<close> if there are at least 3 of them and none is a \<open>LongBreak\<close>,
  and \<open>ShortBreak\<close> with a nil error if there are fewer than 3 or one of them is a
  \<open>LongBreak\<close>.
\<close>

theorem nextCategory_after_pomodoro:
  assumes "Last r s = ((lastInterval, None), s1)"
    and "Category lastInterval = CategoryPomodoro"
    and "Breaks r 3 s1 = ((lastBreaks, None), s2)"
  shows "(3 \<le> length lastBreaks \<and> (\<forall>i\<in>set lastBreaks. Category i \<noteq> CategoryLongBreak) \<longrightarrow>
            nextCategory r s = ((CategoryLongBreak, None), s2)) \<and>
         (length lastBreaks < 3 \<or> (\<exists>i\<in>set lastBreaks. Category i = CategoryLongBreak) \<longrightarrow>
            nextCategory r s = ((CategoryShortBreak, None), s2))"
  using assms
  by (auto simp add: nextCategory_def anyLongBreak_iff CategoryPomodoro_def
        CategoryLongBreak_def CategoryShortBreak_def)

text \<open>
  The theorem on three in-memory histories ending in a Pomodoro: three short breaks
  since the start, a single break, and a long break among the last three breaks.
\<close>

theorem nextCategory_after_pomodoro_witness:
  "nextCategory memRepo
     (history [CategoryPomodoro, CategoryShortBreak, CategoryPomodoro, CategoryShortBreak,
               CategoryPomodoro, CategoryShortBreak, CategoryPomodoro])
     = ((CategoryLongBreak, None),
        history [CategoryPomodoro, CategoryShortBreak, CategoryPomodoro, CategoryShortBreak,
                 CategoryPomodoro, CategoryShortBreak, CategoryPomodoro])
   \<and> nextCategory memRepo (history [CategoryPomodoro, CategoryShortBreak, CategoryPomodoro])
     = ((CategoryShortBreak, None),
        history [CategoryPomodoro, CategoryShortBreak, CategoryPomodoro])
   \<and> nextCategory memRepo
     (history [CategoryPomodoro, CategoryLongBreak, CategoryPomodoro, CategoryShortBreak,
               CategoryPomodoro, CategoryShortBreak, CategoryPomodoro])
     = ((CategoryShortBreak, None),
        history [CategoryPomodoro, CategoryLongBreak, CategoryPomodoro, CategoryShortBreak,
                 CategoryPomodoro, CategoryShortBreak, CategoryPomodoro])"
proof -
  let ?due = "history [CategoryPomodoro, CategoryShortBreak, CategoryPomodoro,
                CategoryShortBreak, CategoryPomodoro, CategoryShortBreak, CategoryPomodoro]"
  let ?few = "history [CategoryPomodoro, CategoryShortBreak, CategoryPomodoro]"
  let ?recent = "history [CategoryPomodoro, CategoryLongBreak, CategoryPomodoro,
                   CategoryShortBreak, CategoryPomodoro, CategoryShortBreak, CategoryPomodoro]"
  have l1: "Last memRepo ?due = ((mkInterval 7 1 1 CategoryPomodoro StateDone, None), ?due)"
    by (simp add: memRepo_def history_def)
  have l2: "Last memRepo ?few = ((mkInterval 3 1 1 CategoryPomodoro StateDone, None), ?few)"
    by (simp add: memRepo_def history_def)
  have l3: "Last memRepo ?recent
              = ((mkInterval 7 1 1 CategoryPomodoro StateDone, None), ?recent)"
    by (simp add: memRepo_def history_def)
  have p7: "Category (mkInterval 7 1 1 CategoryPomodoro StateDone) = CategoryPomodoro"
    and p3: "Category (mkInterval 3 1 1 CategoryPomodoro StateDone) = CategoryPomodoro"
    by (simp_all add: mkInterval_def)
  have b1: "Breaks memRepo 3 ?due
              = (([mkInterval 6 1 1 CategoryShortBreak StateDone,
                   mkInterval 4 1 1 CategoryShortBreak StateDone,
                   mkInterval 2 1 1 CategoryShortBreak StateDone], None), ?due)"
    by (simp add: memRepo_def history_def isBreak_def mkInterval_def
          CategoryPomodoro_def CategoryShortBreak_def CategoryLongBreak_def)
  have b2: "Breaks memRepo 3 ?few
              = (([mkInterval 2 1 1 CategoryShortBreak StateDone], None), ?few)"
    by (simp add: memRepo_def history_def isBreak_def mkInterval_def
          CategoryPomodoro_def CategoryShortBreak_def CategoryLongBreak_def)
  have b3: "Breaks memRepo 3 ?recent
              = (([mkInterval 6 1 1 CategoryShortBreak StateDone,
                   mkInterval 4 1 1 CategoryShortBreak StateDone,
                   mkInterval 2 1 1 CategoryLongBreak StateDone], None), ?recent)"
    by (simp add: memRepo_def history_def isBreak_def mkInterval_def
          CategoryPomodoro_def CategoryShortBreak_def CategoryLongBreak_def)
  show ?thesis
    using nextCategory_after_pomodoro [OF l1 p7 b1] nextCategory_after_pomodoro [OF l2 p3 b2]
      nextCategory_after_pomodoro [OF l3 p7 b3]
    by (simp add: mkInterval_def CategoryShortBreak_def CategoryLongBreak_def)
qed

section \<open>Properties of tick\<close>

subsection \<open>The loop, pass by pass\<close>

text \<open>
  The loop keeps no state of its own between passes, so a run that is still waiting
  after the events \<open>pre\<close> continues on further events from the repository state it
  reached.
\<close>

lemma tick_loop_append_Waiting:
  "tick_loop r ident pre s = (Waiting, s1, cs) \<Longrightarrow>
   tick_loop r ident (pre @ evs) s =
     (case tick_loop r ident evs s1 of (out, s2, cs') \<Rightarrow> (out, s2, cs @ cs'))"
proof (induction pre arbitrary: s cs)
  case Nil
  then show ?case by (simp split: prod.splits)
next
  case (Cons ev pre)
  then show ?case
    by (cases ev) (auto simp add: Let_def split: prod.splits if_splits)
qed

lemma tick_append_Waiting:
  "tick pre ident config s = (Waiting, s1, cs) \<Longrightarrow>
   tick (pre @ evs) ident config s =
     (case tick_loop (repo config) ident evs s1 of (out, s2, cs') \<Rightarrow> (out, s2, cs @ cs'))"
  by (auto simp add: tick_def Let_def tick_loop_append_Waiting split: prod.splits if_splits)

lemma skip_ok_call:
  "x # xs = pre @ c # post \<Longrightarrow> call_error x = None \<Longrightarrow> call_error c = Some e \<Longrightarrow>
   \<exists>pre'. pre = x # pre' \<and> xs = pre' @ c # post"
  by (cases pre) auto

lemma single_call: "[x] = pre @ c # post \<Longrightarrow> pre = [] \<and> c = x \<and> post = []"
  by (cases pre) auto

lemma tick_loop_error_last:
  "tick_loop r ident evs s = (out, s', pre @ c # post) \<Longrightarrow> call_error c = Some e \<Longrightarrow>
   post = [] \<and> out = Returned (Some e)"
proof (induction evs arbitrary: s pre)
  case Nil
  then show ?case by simp
next
  case (Cons ev evs)
  then show ?case
    by (cases ev)
       (auto simp add: Let_def Cons_eq_append_conv append_eq_Cons_conv
             split: prod.splits if_splits)
qed

subsection \<open>The in-memory store\<close>

lemma stored_ID: "stored n s = Some i \<Longrightarrow> ID i = n"
  by (auto simp add: stored_def find_Some_iff)

lemma stored_memPut:
  "stored n s = Some i \<Longrightarrow> ID i' = n \<Longrightarrow> stored n (memPut i' s) = Some i'"
  by (induction s) (auto simp add: stored_def)

lemma memPut_memPut: "ID i'' = ID i' \<Longrightarrow> memPut i'' (memPut i' s) = memPut i'' s"
  by (induction s) auto

lemma memPut_stored: "stored (ID i) s = Some i \<Longrightarrow> memPut i s = s"
  by (induction s) (auto simp add: stored_def)

text \<open>
  \<open>n\<close> periodic ticks in a row on the in-memory store: each adds one second to the
  stored interval, whatever its planned duration and whatever its state, unless the
  state is \<open>Paused\<close>.
\<close>

lemma mem_ticks:
  "stored ident s = Some i \<Longrightarrow> State i \<noteq> StatePaused \<Longrightarrow>
   tick_loop memRepo ident (replicate n TickerFired @ evs) s =
     (case tick_loop memRepo ident evs
             (memPut (i\<lparr>ActualDuration := ActualDuration i + word_of_nat n * Second\<rparr>) s) of
        (out, s', cs) \<Rightarrow> (out, s', tick_calls ident i n @ cs))"
proof (induction n arbitrary: s i)
  case 0
  then have "memPut i s = s"
    using stored_ID memPut_stored by fastforce
  then show ?case by (simp split: prod.splits)
next
  case (Suc n)
  let ?i' = "i\<lparr>ActualDuration := ActualDuration i + Second\<rparr>"
  have id: "ID i = ident" using Suc.prems(1) by (rule stored_ID)
  have st': "stored ident (memPut ?i' s) = Some ?i'"
    using Suc.prems(1) id by (simp add: stored_memPut)
  have np: "State ?i' \<noteq> StatePaused" using Suc.prems(2) by simp
  have step: "tick_loop memRepo ident (TickerFired # replicate n TickerFired @ evs) s =
      (case tick_loop memRepo ident (replicate n TickerFired @ evs) (memPut ?i' s) of
         (out, s3, cs) \<Rightarrow>
           (out, s3, [CallByID ident i None, CallUpdate ?i' None, CallPeriodic ?i'] @ cs))"
    using Suc.prems id by (simp add: memRepo_def Let_def)
  have put: "memPut (?i'\<lparr>ActualDuration := ActualDuration ?i' + word_of_nat n * Second\<rparr>)
               (memPut ?i' s) =
             memPut (i\<lparr>ActualDuration := ActualDuration i + word_of_nat (Suc n) * Second\<rparr>) s"
    by (simp add: memPut_memPut algebra_simps)
  show ?case
    using step Suc.IH [OF st' np] put
    by (simp add: Let_def split: prod.splits)
qed

lemma periodic_calls_tick_calls: "length (periodic_calls (tick_calls ident i n)) = n"
  by (induction n arbitrary: i) (simp_all add: Let_def)

lemma end_calls_tick_calls: "end_calls (tick_calls ident i n) = []"
  by (induction n arbitrary: i) (simp_all add: Let_def)

lemma sint_add_seconds:
  fixes a :: Duration
  assumes "- (2 ^ 63) \<le> sint a + int n * 1000000000"
    and "sint a + int n * 1000000000 < 2 ^ 63"
  shows "sint (a + word_of_nat n * Second) = sint a + int n * 1000000000"
proof -
  have "a + word_of_nat n * Second = word_of_int (sint a + int n * 1000000000)"
    by (simp add: Second_def)
  then have "sint (a + word_of_nat n * Second) = signed_take_bit 63 (sint a + int n * 1000000000)"
    by (simp only: sint_sbintrunc') simp
  also have "\<dots> = sint a + int n * 1000000000"
    using assms by (intro signed_take_bit_int_eq_self) simp_all
  finally show ?thesis .
qed

subsection \<open>Pause\<close>

text \<open>
  C5: if a periodic-tick pass re-fetches the interval and finds it \<open>Paused\<close>,
  \<open>tick\<close> returns nil at once. Whatever the run did before (events \<open>pre\<close>) and
  whatever events would follow, that pass consists of the one \<open>ByID\<close> call: there is no
  \<open>Update\<close>, no increment of the actual duration, no periodic or end callback, and
  the repository is in the state in which the read left it.
\<close>

theorem tick_paused_returns_nil:
  assumes "tick pre ident config s = (Waiting, s1, cs)"
    and "ByID (repo config) ident s1 = ((interval, None), s2)"
    and "State interval = StatePaused"
  shows "tick (pre @ TickerFired # evs) ident config s =
           (Returned None, s2, cs @ [CallByID ident interval None])"
  using assms by (simp add: tick_append_Waiting)

text \<open>
  The theorem on an in-memory store whose interval is \<open>Paused\<close>: the first tick
  returns nil, the store is what it was, and the expiry that follows is never serviced.
\<close>

theorem tick_paused_returns_nil_witness:
  "tick [] 1 (NewConfig memRepo 0 0 0) [mkInterval 1 3 1 CategoryPomodoro StatePaused]
     = (Waiting, [mkInterval 1 3 1 CategoryPomodoro StatePaused],
        [CallByID 1 (mkInterval 1 3 1 CategoryPomodoro StatePaused) None,
         TimeAfter (2 * Second),
         CallStart (mkInterval 1 3 1 CategoryPomodoro StatePaused)])
   \<and> ByID (repo (NewConfig memRepo 0 0 0)) 1 [mkInterval 1 3 1 CategoryPomodoro StatePaused]
     = ((mkInterval 1 3 1 CategoryPomodoro StatePaused, None),
        [mkInterval 1 3 1 CategoryPomodoro StatePaused])
   \<and> State (mkInterval 1 3 1 CategoryPomodoro StatePaused) = StatePaused
   \<and> tick [TickerFired, ExpireFired] 1 (NewConfig memRepo 0 0 0)
        [mkInterval 1 3 1 CategoryPomodoro StatePaused]
     = (Returned None, [mkInterval 1 3 1 CategoryPomodoro StatePaused],
        [CallByID 1 (mkInterval 1 3 1 CategoryPomodoro StatePaused) None,
         TimeAfter (2 * Second),
         CallStart (mkInterval 1 3 1 CategoryPomodoro StatePaused),
         CallByID 1 (mkInterval 1 3 1 CategoryPomodoro StatePaused) None])"
proof -
  let ?i = "mkInterval 1 3 1 CategoryPomodoro StatePaused"
  have fetch: "ByID (repo (NewConfig memRepo 0 0 0)) 1 [?i] = ((?i, None), [?i])"
    by (simp add: NewConfig_def memRepo_def stored_def mkInterval_def)
  have start: "tick [] 1 (NewConfig memRepo 0 0 0) [?i]
                 = (Waiting, [?i], [CallByID 1 ?i None, TimeAfter (2 * Second), CallStart ?i])"
    using fetch by (simp add: tick_def mkInterval_def Second_def)
  have paused: "State ?i = StatePaused"
    by (simp add: mkInterval_def)
  show ?thesis
    using start fetch paused
      tick_paused_returns_nil [OF start fetch paused, where evs = "[ExpireFired]"]
    by simp
qed

subsection \<open>Storage failures\<close>



text \<open>
  Read off the record of a run: an entry for a Repository call that returned an error
  has nothing after it, and that error is what \<open>tick\<close> returned.
\<close>

lemma tick_error_call_is_last:
  assumes "snd (snd (tick sched ident config s)) = pre @ c # post"
    and "call_error c = Some e"
  shows "post = [] \<and> fst (tick sched ident config s) = Returned (Some e)"
proof -
  obtain interval err s1 where fetch: "ByID (repo config) ident s = ((interval, err), s1)"
    by (metis surj_pair)
  show ?thesis
  proof (cases err)
    case (Some e0)
    with fetch have run: "tick sched ident config s =
        (Returned (Some e0), s1, [CallByID ident interval (Some e0)])"
      by (simp add: tick_def)
    with assms(1) have "[CallByID ident interval (Some e0)] = pre @ c # post"
      by simp
    then have "pre = [] \<and> c = CallByID ident interval (Some e0) \<and> post = []"
      by (rule single_call)
    with assms(2) run show ?thesis by simp
  next
    case None
    obtain out s2 cs' where loop: "tick_loop (repo config) ident sched s1 = (out, s2, cs')"
      by (metis surj_pair)
    with fetch None have run: "tick sched ident config s =
        (out, s2,
         CallByID ident interval None
           # TimeAfter (PlannedDuration interval - ActualDuration interval)
           # CallStart interval # cs')"
      by (simp add: tick_def Let_def)
    with assms(1) have "CallByID ident interval None
           # TimeAfter (PlannedDuration interval - ActualDuration interval)
           # CallStart interval # cs' = pre @ c # post"
      by simp
    from skip_ok_call [OF this _ assms(2)] obtain p1 where
      "TimeAfter (PlannedDuration interval - ActualDuration interval)
           # CallStart interval # cs' = p1 @ c # post"
      by auto
    from skip_ok_call [OF this _ assms(2)] obtain p2 where
      "CallStart interval # cs' = p2 @ c # post"
      by auto
    from skip_ok_call [OF this _ assms(2)] obtain p3 where "cs' = p3 @ c # post"
      by auto
    with loop have "tick_loop (repo config) ident sched s1 = (out, s2, p3 @ c # post)"
      by simp
    then have "post = [] \<and> out = Returned (Some e)"
      using assms(2) by (rule tick_loop_error_last)
    with run show ?thesis by simp
  qed
qed

subsection \<open>Cancellation\<close>

text \<open>
  C1: a cancellation signal before expiry should end the run with the interval
  \<open>Cancelled\<close>, no further tick and no end callback. The code does not do that. On
  the in-memory store holding a running 3-second interval: after the cancellation
  pass alone \<open>tick\<close> has not returned and the stored state is still \<open>Running\<close>;
  when a tick and the expiry follow, the tick adds its second and runs the periodic
  callback, the expiry runs the end callback, and the interval is stored as \<open>Done\<close>.
\<close>

theorem tick_cancellation_does_not_stop:
  "tick [CtxDone] 1 (NewConfig memRepo 0 0 0)
     [mkInterval 1 3 0 CategoryPomodoro StateRunning]
     = (Waiting, [mkInterval 1 3 0 CategoryPomodoro StateRunning],
        [CallByID 1 (mkInterval 1 3 0 CategoryPomodoro StateRunning) None,
         TimeAfter (3 * Second),
         CallStart (mkInterval 1 3 0 CategoryPomodoro StateRunning),
         CallByID 1 (mkInterval 1 3 0 CategoryPomodoro StateRunning) None])
   \<and> tick [CtxDone, TickerFired, ExpireFired] 1 (NewConfig memRepo 0 0 0)
       [mkInterval 1 3 0 CategoryPomodoro StateRunning]
     = (Returned None, [mkInterval 1 3 1 CategoryPomodoro StateDone],
        [CallByID 1 (mkInterval 1 3 0 CategoryPomodoro StateRunning) None,
         TimeAfter (3 * Second),
         CallStart (mkInterval 1 3 0 CategoryPomodoro StateRunning),
         CallByID 1 (mkInterval 1 3 0 CategoryPomodoro StateRunning) None,
         CallByID 1 (mkInterval 1 3 0 CategoryPomodoro StateRunning) None,
         CallUpdate (mkInterval 1 3 1 CategoryPomodoro StateRunning) None,
         CallPeriodic (mkInterval 1 3 1 CategoryPomodoro StateRunning),
         CallByID 1 (mkInterval 1 3 1 CategoryPomodoro StateRunning) None,
         CallEnd (mkInterval 1 3 1 CategoryPomodoro StateDone),
         CallUpdate (mkInterval 1 3 1 CategoryPomodoro StateDone) None])"
  by (simp add: tick_def NewConfig_def memRepo_def stored_def mkInterval_def Second_def
        StateRunning_def StatePaused_def StateDone_def Let_def)

subsection \<open>Terminal states\<close>

text \<open>
  C2: \<open>tick\<close> does not look for a terminal state; the one state the loop tests for is
  \<open>Paused\<close>. For an interval whose stored state is \<open>Done\<close> or \<open>Cancelled\<close>, a
  serviced periodic tick whose storage calls succeed re-fetches it, stores it with one
  second added to the actual duration and the state as it was, runs the periodic
  callback on that snapshot, and the loop goes on waiting.
\<close>

theorem tick_terminal_state_still_ticks:
  assumes "tick pre ident config s = (Waiting, s1, cs)"
    and "ByID (repo config) ident s1 = ((interval, None), s2)"
    and "State interval = StateDone \<or> State interval = StateCancelled"
    and "Update (repo config) (interval\<lparr>ActualDuration := ActualDuration interval + Second\<rparr>) s2
           = (None, s3)"
  shows "tick (pre @ [TickerFired]) ident config s =
           (Waiting, s3,
            cs @ [CallByID ident interval None,
                  CallUpdate (interval\<lparr>ActualDuration := ActualDuration interval + Second\<rparr>) None,
                  CallPeriodic (interval\<lparr>ActualDuration := ActualDuration interval + Second\<rparr>)])"
  using assms
  by (auto simp add: tick_append_Waiting Let_def StateDone_def StateCancelled_def StatePaused_def)

text \<open>The theorem on an in-memory store whose 3-second interval is \<open>Done\<close> at 3 seconds.\<close>

theorem tick_terminal_state_still_ticks_witness:
  "tick [] 1 (NewConfig memRepo 0 0 0) [mkInterval 1 3 3 CategoryPomodoro StateDone]
     = (Waiting, [mkInterval 1 3 3 CategoryPomodoro StateDone],
        [CallByID 1 (mkInterval 1 3 3 CategoryPomodoro StateDone) None,
         TimeAfter 0,
         CallStart (mkInterval 1 3 3 CategoryPomodoro StateDone)])
   \<and> ByID (repo (NewConfig memRepo 0 0 0)) 1 [mkInterval 1 3 3 CategoryPomodoro StateDone]
     = ((mkInterval 1 3 3 CategoryPomodoro StateDone, None),
        [mkInterval 1 3 3 CategoryPomodoro StateDone])
   \<and> (State (mkInterval 1 3 3 CategoryPomodoro StateDone) = StateDone
       \<or> State (mkInterval 1 3 3 CategoryPomodoro StateDone) = StateCancelled)
   \<and> Update (repo (NewConfig memRepo 0 0 0)) (mkInterval 1 3 4 CategoryPomodoro StateDone)
        [mkInterval 1 3 3 CategoryPomodoro StateDone]
     = (None, [mkInterval 1 3 4 CategoryPomodoro StateDone])
   \<and> tick [TickerFired] 1 (NewConfig memRepo 0 0 0)
        [mkInterval 1 3 3 CategoryPomodoro StateDone]
     = (Waiting, [mkInterval 1 3 4 CategoryPomodoro StateDone],
        [CallByID 1 (mkInterval 1 3 3 CategoryPomodoro StateDone) None,
         TimeAfter 0,
         CallStart (mkInterval 1 3 3 CategoryPomodoro StateDone),
         CallByID 1 (mkInterval 1 3 3 CategoryPomodoro StateDone) None,
         CallUpdate (mkInterval 1 3 4 CategoryPomodoro StateDone) None,
         CallPeriodic (mkInterval 1 3 4 CategoryPomodoro StateDone)])"
proof -
  let ?i = "mkInterval 1 3 3 CategoryPomodoro StateDone"
  let ?i' = "mkInterval 1 3 4 CategoryPomodoro StateDone"
  have next_second: "?i\<lparr>ActualDuration := ActualDuration ?i + Second\<rparr> = ?i'"
    by (simp add: mkInterval_def Second_def)
  have fetch: "ByID (repo (NewConfig memRepo 0 0 0)) 1 [?i] = ((?i, None), [?i])"
    by (simp add: NewConfig_def memRepo_def stored_def mkInterval_def)
  have start: "tick [] 1 (NewConfig memRepo 0 0 0) [?i]
                 = (Waiting, [?i], [CallByID 1 ?i None, TimeAfter 0, CallStart ?i])"
    using fetch by (simp add: tick_def mkInterval_def Second_def)
  have terminal: "State ?i = StateDone \<or> State ?i = StateCancelled"
    by (simp add: mkInterval_def)
  have store: "Update (repo (NewConfig memRepo 0 0 0))
                 (?i\<lparr>ActualDuration := ActualDuration ?i + Second\<rparr>) [?i] = (None, [?i'])"
    by (simp add: NewConfig_def memRepo_def stored_def mkInterval_def Second_def)
  show ?thesis
    using start fetch terminal store
      tick_terminal_state_still_ticks [OF start fetch terminal store]
    by (simp add: next_second)
qed

text \<open>
  The claim as first stated fails on a \<open>Cancelled\<close> interval at 1 of 3 seconds: a
  tick and the expiry store it twice, with 2 seconds and then as \<open>Done\<close>.
\<close>

theorem tick_terminal_state_counterexample:
  "State (mkInterval 1 3 1 CategoryPomodoro StateCancelled) = StateCancelled
   \<and> stored 1 (fst (snd (tick [TickerFired, ExpireFired] 1 (NewConfig memRepo 0 0 0)
                            [mkInterval 1 3 1 CategoryPomodoro StateCancelled])))
       = Some (mkInterval 1 3 2 CategoryPomodoro StateDone)
   \<and> ActualDuration (mkInterval 1 3 2 CategoryPomodoro StateDone)
       \<noteq> ActualDuration (mkInterval 1 3 1 CategoryPomodoro StateCancelled)
   \<and> State (mkInterval 1 3 2 CategoryPomodoro StateDone)
       \<noteq> State (mkInterval 1 3 1 CategoryPomodoro StateCancelled)
   \<and> update_calls (snd (snd (tick [TickerFired, ExpireFired] 1 (NewConfig memRepo 0 0 0)
                                [mkInterval 1 3 1 CategoryPomodoro StateCancelled])))
       = [mkInterval 1 3 2 CategoryPomodoro StateCancelled,
          mkInterval 1 3 2 CategoryPomodoro StateDone]"
  by (simp add: tick_def NewConfig_def memRepo_def stored_def mkInterval_def Second_def
        StateCancelled_def StatePaused_def StateDone_def Let_def)

subsection \<open>An uninterrupted run\<close>

text \<open>
  C3: an interval on the in-memory store, not \<open>Paused\<close>, is run without
  interruption and the periodic callback is invoked exactly \<open>n\<close> times before the
  expiry branch fires (\<open>n = 2\<close> for the run from a planned duration of 3 seconds and
  an actual duration of 0). The expiry branch then re-fetches the interval, sets its
  state to \<open>Done\<close>, invokes the end callback with a snapshot whose actual duration is
  the initial one plus \<open>n\<close> seconds (2 seconds in that run, not the planned 3),
  stores that snapshot and returns nil.
\<close>

theorem tick_uninterrupted_run:
  assumes "repo config = memRepo"
    and "stored ident s = Some i"
    and "State i \<noteq> StatePaused"
  shows "tick (replicate n TickerFired @ [ExpireFired]) ident config s =
           (Returned None,
            memPut (i\<lparr>ActualDuration := ActualDuration i + word_of_nat n * Second,
                      State := StateDone\<rparr>) s,
            [CallByID ident i None,
             TimeAfter (PlannedDuration i - ActualDuration i),
             CallStart i]
            @ tick_calls ident i n
            @ [CallByID ident
                 (i\<lparr>ActualDuration := ActualDuration i + word_of_nat n * Second\<rparr>) None,
               CallEnd (i\<lparr>ActualDuration := ActualDuration i + word_of_nat n * Second,
                         State := StateDone\<rparr>),
               CallUpdate (i\<lparr>ActualDuration := ActualDuration i + word_of_nat n * Second,
                            State := StateDone\<rparr>) None])
         \<and> length (periodic_calls (tick_calls ident i n)) = n
         \<and> end_calls (tick_calls ident i n) = []"
proof -
  let ?iN = "i\<lparr>ActualDuration := ActualDuration i + word_of_nat n * Second\<rparr>"
  let ?iD = "i\<lparr>ActualDuration := ActualDuration i + word_of_nat n * Second,
               State := StateDone\<rparr>"
  have id: "ID i = ident" using assms(2) by (rule stored_ID)
  have fetch: "ByID memRepo ident s = ((i, None), s)"
    using assms(2) by (simp add: memRepo_def)
  have after: "stored ident (memPut ?iN s) = Some ?iN"
    using assms(2) id by (simp add: stored_memPut)
  have expiry: "tick_loop memRepo ident [ExpireFired] (memPut ?iN s) =
      (Returned None, memPut ?iD s,
       [CallByID ident ?iN None, CallEnd ?iD, CallUpdate ?iD None])"
    using after id by (simp add: memRepo_def Let_def stored_memPut memPut_memPut)
  have loop: "tick_loop memRepo ident (replicate n TickerFired @ [ExpireFired]) s =
      (Returned None, memPut ?iD s,
       tick_calls ident i n @ [CallByID ident ?iN None, CallEnd ?iD, CallUpdate ?iD None])"
    using mem_ticks [OF assms(2) assms(3), where n = n and evs = "[ExpireFired]"] expiry
    by simp
  show ?thesis
    using assms(1) fetch loop
    by (simp add: tick_def Let_def periodic_calls_tick_calls end_calls_tick_calls)
qed

text \<open>
  The theorem on the run of the claim: planned 3 seconds, actual 0, two ticks, then
  the expiry.
\<close>

theorem tick_uninterrupted_run_witness:
  "repo (NewConfig memRepo 0 0 0) = memRepo
   \<and> stored 1 [mkInterval 1 3 0 CategoryPomodoro StateRunning]
       = Some (mkInterval 1 3 0 CategoryPomodoro StateRunning)
   \<and> State (mkInterval 1 3 0 CategoryPomodoro StateRunning) \<noteq> StatePaused
   \<and> tick [TickerFired, TickerFired, ExpireFired] 1 (NewConfig memRepo 0 0 0)
        [mkInterval 1 3 0 CategoryPomodoro StateRunning]
     = (Returned None, [mkInterval 1 3 2 CategoryPomodoro StateDone],
        [CallByID 1 (mkInterval 1 3 0 CategoryPomodoro StateRunning) None,
         TimeAfter (3 * Second),
         CallStart (mkInterval 1 3 0 CategoryPomodoro StateRunning),
         CallByID 1 (mkInterval 1 3 0 CategoryPomodoro StateRunning) None,
         CallUpdate (mkInterval 1 3 1 CategoryPomodoro StateRunning) None,
         CallPeriodic (mkInterval 1 3 1 CategoryPomodoro StateRunning),
         CallByID 1 (mkInterval 1 3 1 CategoryPomodoro StateRunning) None,
         CallUpdate (mkInterval 1 3 2 CategoryPomodoro StateRunning) None,
         CallPeriodic (mkInterval 1 3 2 CategoryPomodoro StateRunning),
         CallByID 1 (mkInterval 1 3 2 CategoryPomodoro StateRunning) None,
         CallEnd (mkInterval 1 3 2 CategoryPomodoro StateDone),
         CallUpdate (mkInterval 1 3 2 CategoryPomodoro StateDone) None])"
proof -
  let ?i = "mkInterval 1 3 0 CategoryPomodoro StateRunning"
  have cfg: "repo (NewConfig memRepo 0 0 0) = memRepo"
    by (simp add: NewConfig_def)
  have held: "stored 1 [?i] = Some ?i"
    by (simp add: stored_def mkInterval_def)
  have running: "State ?i \<noteq> StatePaused"
    by (simp add: mkInterval_def StateRunning_def StatePaused_def)
  show ?thesis
    using cfg held running
      tick_uninterrupted_run [OF cfg held running, where n = "Suc (Suc 0)"]
    by (simp add: mkInterval_def Second_def Let_def)
qed

text \<open>
  The claim as first stated fails on that run: after exactly two periodic callbacks
  the end callback receives an actual duration of 2 seconds, which is not the planned
  duration of 3 seconds.
\<close>

theorem tick_uninterrupted_run_counterexample:
  "length (periodic_calls (snd (snd (tick [TickerFired, TickerFired, ExpireFired] 1
             (NewConfig memRepo 0 0 0) [mkInterval 1 3 0 CategoryPomodoro StateRunning]))))
     = 2
   \<and> end_calls (snd (snd (tick [TickerFired, TickerFired, ExpireFired] 1
             (NewConfig memRepo 0 0 0) [mkInterval 1 3 0 CategoryPomodoro StateRunning])))
     = [mkInterval 1 3 2 CategoryPomodoro StateDone]
   \<and> ActualDuration (mkInterval 1 3 2 CategoryPomodoro StateDone)
     \<noteq> PlannedDuration (mkInterval 1 3 2 CategoryPomodoro StateDone)"
  by (simp add: tick_def NewConfig_def memRepo_def stored_def mkInterval_def Second_def
        StateRunning_def StatePaused_def StateDone_def Let_def)

subsection \<open>Actual and planned duration\<close>

text \<open>
  C4: the loop does not compare the actual with the planned duration. On the
  in-memory store, \<open>n\<close> serviced ticks on an interval that is not \<open>Paused\<close> leave
  \<open>tick\<close> waiting with the stored actual duration advanced by exactly \<open>n\<close> seconds.
  So the actual duration stays within the planned one when those \<open>n\<close> seconds fit
  into what remained, and exceeds it when they do not (short of overflowing 64 bits).
\<close>

theorem tick_actual_after_ticks:
  assumes "repo config = memRepo"
    and "stored ident s = Some i"
    and "State i \<noteq> StatePaused"
  shows "fst (tick (replicate n TickerFired) ident config s) = Waiting
         \<and> stored ident (fst (snd (tick (replicate n TickerFired) ident config s)))
             = Some (i\<lparr>ActualDuration := ActualDuration i + word_of_nat n * Second\<rparr>)
         \<and> (sint (ActualDuration i) + int n * 1000000000 \<le> sint (PlannedDuration i) \<longrightarrow>
              withinPlan (i\<lparr>ActualDuration := ActualDuration i + word_of_nat n * Second\<rparr>))
         \<and> (sint (PlannedDuration i) < sint (ActualDuration i) + int n * 1000000000
              \<and> sint (ActualDuration i) + int n * 1000000000 < 2 ^ 63 \<longrightarrow>
              \<not> withinPlan (i\<lparr>ActualDuration := ActualDuration i + word_of_nat n * Second\<rparr>))"
proof -
  let ?iN = "i\<lparr>ActualDuration := ActualDuration i + word_of_nat n * Second\<rparr>"
  have id: "ID i = ident" using assms(2) by (rule stored_ID)
  have fetch: "ByID memRepo ident s = ((i, None), s)"
    using assms(2) by (simp add: memRepo_def)
  have loop: "tick_loop memRepo ident (replicate n TickerFired) s =
                (Waiting, memPut ?iN s, tick_calls ident i n)"
    using mem_ticks [OF assms(2) assms(3), where n = n and evs = "[]"] by simp
  have run: "tick (replicate n TickerFired) ident config s =
      (Waiting, memPut ?iN s,
       [CallByID ident i None, TimeAfter (PlannedDuration i - ActualDuration i), CallStart i]
       @ tick_calls ident i n)"
    using assms(1) fetch loop by (simp add: tick_def Let_def)
  have held: "stored ident (memPut ?iN s) = Some ?iN"
    using assms(2) id by (simp add: stored_memPut)
  have lo: "- (2 ^ 63) \<le> sint (ActualDuration i) + int n * 1000000000"
    using sint_ge [of "ActualDuration i"] by simp
  have fits: "withinPlan ?iN"
    if "sint (ActualDuration i) + int n * 1000000000 \<le> sint (PlannedDuration i)"
  proof -
    have "sint (ActualDuration i) + int n * 1000000000 < 2 ^ 63"
      using that sint_lt [of "PlannedDuration i"] by simp
    with lo that show ?thesis
      by (simp add: withinPlan_def word_sle_eq sint_add_seconds)
  qed
  have exceeds: "\<not> withinPlan ?iN"
    if "sint (PlannedDuration i) < sint (ActualDuration i) + int n * 1000000000"
      and "sint (ActualDuration i) + int n * 1000000000 < 2 ^ 63"
    using that lo by (simp add: withinPlan_def word_sle_eq sint_add_seconds)
  show ?thesis
    using run held fits exceeds by simp
qed

text \<open>
  The theorem on a 3-second interval at 0 seconds: within the plan after three ticks,
  beyond it after four.
\<close>

theorem tick_actual_after_ticks_witness:
  "repo (NewConfig memRepo 0 0 0) = memRepo
   \<and> stored 1 [mkInterval 1 3 0 CategoryPomodoro StateRunning]
       = Some (mkInterval 1 3 0 CategoryPomodoro StateRunning)
   \<and> State (mkInterval 1 3 0 CategoryPomodoro StateRunning) \<noteq> StatePaused
   \<and> stored 1 (fst (snd (tick [TickerFired, TickerFired, TickerFired] 1
                            (NewConfig memRepo 0 0 0)
                            [mkInterval 1 3 0 CategoryPomodoro StateRunning])))
       = Some (mkInterval 1 3 3 CategoryPomodoro StateRunning)
   \<and> withinPlan (mkInterval 1 3 3 CategoryPomodoro StateRunning)
   \<and> stored 1 (fst (snd (tick [TickerFired, TickerFired, TickerFired, TickerFired] 1
                            (NewConfig memRepo 0 0 0)
                            [mkInterval 1 3 0 CategoryPomodoro StateRunning])))
       = Some (mkInterval 1 3 4 CategoryPomodoro StateRunning)
   \<and> \<not> withinPlan (mkInterval 1 3 4 CategoryPomodoro StateRunning)"
proof -
  let ?i = "mkInterval 1 3 0 CategoryPomodoro StateRunning"
  have cfg: "repo (NewConfig memRepo 0 0 0) = memRepo"
    by (simp add: NewConfig_def)
  have held: "stored 1 [?i] = Some ?i"
    by (simp add: stored_def mkInterval_def)
  have running: "State ?i \<noteq> StatePaused"
    by (simp add: mkInterval_def StateRunning_def StatePaused_def)
  show ?thesis
    using cfg held running
      tick_actual_after_ticks [OF cfg held running, where n = "Suc (Suc (Suc 0))"]
      tick_actual_after_ticks [OF cfg held running, where n = "Suc (Suc (Suc (Suc 0)))"]
    by (simp add: mkInterval_def Second_def)
qed

text \<open>
  The claim as first stated fails on that interval: it starts within its plan, and
  four serviced ticks store an actual duration of 4 seconds against a planned 3.
\<close>

theorem tick_actual_after_ticks_counterexample:
  "withinPlan (mkInterval 1 3 0 CategoryPomodoro StateRunning)
   \<and> stored 1 (fst (snd (tick [TickerFired, TickerFired, TickerFired, TickerFired] 1
                            (NewConfig memRepo 0 0 0)
                            [mkInterval 1 3 0 CategoryPomodoro StateRunning])))
       = Some (mkInterval 1 3 4 CategoryPomodoro StateRunning)
   \<and> PlannedDuration (mkInterval 1 3 4 CategoryPomodoro StateRunning) = 3 * Second
   \<and> ActualDuration (mkInterval 1 3 4 CategoryPomodoro StateRunning) = 4 * Second
   \<and> \<not> withinPlan (mkInterval 1 3 4 CategoryPomodoro StateRunning)"
  by (simp add: tick_def NewConfig_def memRepo_def stored_def mkInterval_def Second_def
        StateRunning_def StatePaused_def withinPlan_def word_sle_eq Let_def)

end
